theory Spec2Isabelle
  imports Main
begin

section \<open>The authenticated API client and the auth store\<close>

text \<open>
  The development embeds two modules of the frontend: the HTTP client of
  \<^verbatim>\<open>utils/api.js\<close> (an axios instance with one request interceptor and one response
  interceptor, and the \<^verbatim>\<open>apiClient\<close> wrappers) and the auth store
  \<^verbatim>\<open>stores/useAuthStore\<close> (a zustand store whose actions call the client).

  Modelling decisions.
  \<^item> Everything the code mutates is one record, \<open>world\<close>: the store's fields, the
    instance's default headers (\<^verbatim>\<open>api.defaults.headers.common\<close>), the toasts shown,
    the last value assigned to \<^verbatim>\<open>window.location.href\<close>, the console, the requests
    put on the wire, and the logout calls that were started but not awaited.
  \<^item> The environment is a script, \<open>env\<close>: the answer that the \<open>k\<close>-th request put
    on the wire receives, and what \<^verbatim>\<open>Date.now()\<close> returns when it is sent.
  \<^item> A promise that settles is a value \<open>Fulfilled x\<close> or \<open>Rejected e\<close>. The interceptor
    and the refresh operation call each other without a bound, so the recursive
    functions take fuel: \<open>None\<close> means that the promise has not settled within it.
  \<^item> A JavaScript value that is \<^verbatim>\<open>null\<close> or \<^verbatim>\<open>undefined\<close> is \<open>None\<close>; tokens and
    the \<^verbatim>\<open>detail\<close> of an error body are strings when present.
  \<^item> The dynamic \<^verbatim>\<open>import('../stores/useAuthStore')\<close> of the interceptor is taken to
    succeed: the module is the one that already holds the store.
  \<^item> The program runs on one thread. A call that is awaited runs to its end before
    its caller goes on. A call of \<^verbatim>\<open>logout()\<close> that is not awaited sends its request
    at once and is then left in \<open>pending\<close>; it goes on when \<open>logout_resume\<close> handles
    its answer, after the call that started it has settled. Several calls of the
    application in flight at the same time are not modelled.
\<close>

subsection \<open>Data\<close>

text \<open>A response body: the fields the code reads from \<^verbatim>\<open>response.data\<close>.\<close>

datatype jsdata = Data
  (detail: "string option")
  (access_token: "string option")
  (refresh_token: "string option")
  (data_user: "jsdata option")

datatype param = Text string | Time nat

text \<open>
  An axios request config. \<open>retry\<close> is the \<^verbatim>\<open>_retry\<close> property that the response
  interceptor sets; it is absent (\<open>False\<close>) on a config that a caller builds.
\<close>

record config =
  url :: string
  http_method :: string
  params :: "string \<rightharpoonup> param"
  headers :: "string \<rightharpoonup> string"
  payload :: "(string \<times> string) list option"
  retry :: bool

datatype response = Response
  (status: nat)
  (response_headers: "string \<rightharpoonup> string")
  (response_data: "jsdata option")

text \<open>What the transport gives back: a response, or no response at all.\<close>

datatype outcome = Reply response | NoReply string

datatype js_error =
    AxiosError string config "response option"
  | Error string
  | TypeError string

datatype 'a settled = Fulfilled 'a | Rejected js_error

datatype toast = ToastError string | ToastSuccess string

record world =
  user :: "jsdata option"
  accessToken :: "string option"
  refreshToken :: "string option"
  isAuthenticated :: bool
  isLoading :: bool
  common :: "string \<rightharpoonup> string"
  toasts :: "toast list"
  href :: "string option"
  console :: "js_error list"
  sent :: "config list"
  pending :: "(js_error + response) list"

record env =
  server :: "nat \<Rightarrow> outcome"
  clock :: "nat \<Rightarrow> nat"

subsection \<open>JavaScript primitives\<close>

text \<open>Truthiness of a string that may be absent: \<^verbatim>\<open>""\<close> is falsy.\<close>

definition truthy :: "string option \<Rightarrow> bool" where
  "truthy v = (case v of None \<Rightarrow> False | Some s \<Rightarrow> s \<noteq> [])"

text \<open>\<^verbatim>\<open>a || b\<close> on such a value, with a string default.\<close>

definition or_else :: "string option \<Rightarrow> string \<Rightarrow> string" where
  "or_else v d = (case v of None \<Rightarrow> d | Some s \<Rightarrow> if s = [] then d else s)"

text \<open>A value inside a template literal: \<^verbatim>\<open>`${v}`\<close>.\<close>

definition template :: "string option \<Rightarrow> string" where
  "template v = (case v of None \<Rightarrow> ''undefined'' | Some s \<Rightarrow> s)"

text \<open>The header value \<^verbatim>\<open>`Bearer ${access_token}`\<close>.\<close>

definition bearer :: "string option \<Rightarrow> string" where
  "bearer t = ''Bearer '' @ template t"

text \<open>A status code inside a message: its decimal digits.\<close>

definition digit :: "nat \<Rightarrow> char" where
  "digit d = char_of (d + 48)"

fun string_of_nat :: "nat \<Rightarrow> string" where
  "string_of_nat n =
     (if 10 \<le> n then string_of_nat (n div 10) @ [digit (n mod 10)] else [digit n])"

declare string_of_nat.simps [simp del]

fun message :: "js_error \<Rightarrow> string" where
  "message (AxiosError m c r) = m"
| "message (Error m) = m"
| "message (TypeError m) = m"

text \<open>\<^verbatim>\<open>error.response\<close>, undefined on an error that is not from axios.\<close>

fun error_response :: "js_error \<Rightarrow> response option" where
  "error_response (AxiosError m c r) = r"
| "error_response (Error m) = None"
| "error_response (TypeError m) = None"

text \<open>\<^verbatim>\<open>error.response?.data?.detail\<close>\<close>

definition error_detail :: "js_error \<Rightarrow> string option" where
  "error_detail e =
     (case error_response e of
        None \<Rightarrow> None
      | Some r \<Rightarrow> (case response_data r of None \<Rightarrow> None | Some d \<Rightarrow> detail d))"

subsection \<open>The axios instance\<close>

text \<open>
  \<^verbatim>\<open>api(config)\<close> first merges the instance defaults into the config; a header that
  the config itself carries takes precedence over a default of the same name. The
  merged config is the one the interceptors see and the one an error carries as
  \<^verbatim>\<open>error.config\<close>. Of the defaults only the common headers change while the
  program runs; the base URL, the timeout and the content type are fixed at creation
  and left out.
\<close>

definition merge_defaults :: "world \<Rightarrow> config \<Rightarrow> config" where
  "merge_defaults w c = c\<lparr>headers := common w ++ headers c\<rparr>"

text \<open>The request interceptor (api.js, lines 17-30).\<close>

definition request_interceptor :: "nat \<Rightarrow> config \<Rightarrow> config" where
  "request_interceptor now c = c\<lparr>params := (params c)(''_t'' \<mapsto> Time now)\<rparr>"

text \<open>
  The adapter settles the request: a status in \<open>[200, 300)\<close> fulfils, any other
  status and the absence of a response reject with an error that carries the config.
\<close>

definition adapter :: "config \<Rightarrow> outcome \<Rightarrow> js_error + response" where
  "adapter c out =
     (case out of
        Reply r \<Rightarrow>
          if 200 \<le> status r \<and> status r < 300 then Inr r
          else Inl (AxiosError (''Request failed with status code '' @ string_of_nat (status r))
                      c (Some r))
      | NoReply m \<Rightarrow> Inl (AxiosError m c None))"

text \<open>
  Putting a config on the wire: the request interceptor runs, the request is logged
  as the \<open>k\<close>-th one, and the environment's \<open>k\<close>-th answer comes back.
\<close>

definition send :: "env \<Rightarrow> config \<Rightarrow> world \<Rightarrow> (js_error + response) \<times> world" where
  "send e c w =
     (let k = length (sent w);
          c1 = request_interceptor (clock e k) c
      in (adapter c1 (server e k), w\<lparr>sent := sent w @ [c1]\<rparr>))"

definition api_get :: "string \<Rightarrow> config \<Rightarrow> config" where
  "api_get u c = c\<lparr>url := u, http_method := ''get''\<rparr>"

definition api_delete :: "string \<Rightarrow> config \<Rightarrow> config" where
  "api_delete u c = c\<lparr>url := u, http_method := ''delete''\<rparr>"

definition api_post :: "string \<Rightarrow> (string \<times> string) list option \<Rightarrow> config \<Rightarrow> config" where
  "api_post u d c = c\<lparr>url := u, http_method := ''post'', payload := d\<rparr>"

definition api_put :: "string \<Rightarrow> (string \<times> string) list option \<Rightarrow> config \<Rightarrow> config" where
  "api_put u d c = c\<lparr>url := u, http_method := ''put'', payload := d\<rparr>"

text \<open>The empty config \<^verbatim>\<open>{}\<close>.\<close>

definition no_config :: config where
  "no_config = \<lparr>url = [], http_method = ''get'', params = Map.empty, headers = Map.empty,
                 payload = None, retry = False\<rparr>"

subsection \<open>The response interceptor and the refresh operation\<close>

text \<open>
  The notifications of the rejected handler (api.js, lines 63-87): five independent
  tests, in the source's order.
\<close>

definition has_status :: "response option \<Rightarrow> nat \<Rightarrow> bool" where
  "has_status r s = (case r of None \<Rightarrow> False | Some x \<Rightarrow> status x = s)"

definition retry_after :: "response \<Rightarrow> string option" where
  "retry_after r = response_headers r ''retry-after''"

definition notifications :: "response option \<Rightarrow> toast list" where
  "notifications r =
     (if has_status r 403
      then [ToastError ''You do not have permission to perform this action''] else []) @
     (if has_status r 404
      then [ToastError ''The requested resource was not found''] else []) @
     (case r of
        None \<Rightarrow> []
      | Some x \<Rightarrow>
          if status x = 429
          then [ToastError (''Too many requests. Please try again in ''
                            @ or_else (retry_after x) ''60'' @ '' seconds'')]
          else []) @
     (case r of
        None \<Rightarrow> []
      | Some x \<Rightarrow>
          if status x \<ge> 500 then [ToastError ''Server error. Please try again later'']
          else []) @
     (if r = None then [ToastError ''Network error. Please check your connection''] else [])"

definition notify :: "response option \<Rightarrow> world \<Rightarrow> world" where
  "notify r w = w\<lparr>toasts := toasts w @ notifications r\<rparr>"

text \<open>
  A call \<^verbatim>\<open>logout()\<close> whose promise nobody awaits (auth store line 168, api.js
  line 57). The call runs up to its first \<^verbatim>\<open>await\<close>: the POST to
  \<^verbatim>\<open>/auth/logout\<close> is configured from the defaults of that moment and goes out; the
  answer is handled later, see \<open>logout_resume\<close>.
\<close>

definition logout_config :: config where
  "logout_config = api_post ''/auth/logout'' None no_config"

definition logout_start :: "env \<Rightarrow> world \<Rightarrow> world" where
  "logout_start e w =
     (case send e (merge_defaults w logout_config) w of
        (res, w1) \<Rightarrow> w1\<lparr>pending := pending w1 @ [res]\<rparr>)"

definition refresh_config :: "string \<Rightarrow> config" where
  "refresh_config t = api_post ''/auth/refresh'' (Some [(''refresh_token'', t)]) no_config"

definition destructure_message :: string where
  "destructure_message = ''Cannot destructure property of response.data''"

text \<open>
  \<open>request\<close> is \<^verbatim>\<open>api(config)\<close>; \<open>on_rejected\<close> is the rejected handler of the response
  interceptor (api.js, lines 37-90; the fulfilled handler is the identity);
  \<open>refreshAccessToken\<close> is the store's action (lines 140-171).
\<close>

fun request :: "nat \<Rightarrow> env \<Rightarrow> config \<Rightarrow> world \<Rightarrow> (response settled \<times> world) option"
and on_rejected :: "nat \<Rightarrow> env \<Rightarrow> js_error \<Rightarrow> world \<Rightarrow> (response settled \<times> world) option"
and refreshAccessToken :: "nat \<Rightarrow> env \<Rightarrow> world \<Rightarrow> (string option settled \<times> world) option"
where
  "request 0 e c w = None"
| "request (Suc n) e c w =
     (case send e (merge_defaults w c) w of
        (Inr r, w1) \<Rightarrow> Some (Fulfilled r, w1)
      | (Inl err, w1) \<Rightarrow> on_rejected n e err w1)"
| "on_rejected 0 e err w = None"
| "on_rejected (Suc n) e (AxiosError m originalRequest r) w =
     (if has_status r 401 \<and> \<not> retry originalRequest then
        (if truthy (refreshToken w) then
           (case refreshAccessToken n e w of
              None \<Rightarrow> None
            | Some (Fulfilled t, w1) \<Rightarrow> request n e (originalRequest\<lparr>retry := True\<rparr>) w1
            | Some (Rejected refreshError, w1) \<Rightarrow>
                Some (Rejected refreshError, (logout_start e w1)\<lparr>href := Some ''/login''\<rparr>))
         else Some (Rejected (AxiosError m (originalRequest\<lparr>retry := True\<rparr>) r), notify r w))
      else Some (Rejected (AxiosError m originalRequest r), notify r w))"
| "on_rejected (Suc n) e (Error m) w = Some (Rejected (Error m), notify None w)"
| "on_rejected (Suc n) e (TypeError m) w = Some (Rejected (TypeError m), notify None w)"
| "refreshAccessToken 0 e w = None"
| "refreshAccessToken (Suc n) e w =
     (case refreshToken w of
        None \<Rightarrow> Some (Rejected (Error ''No refresh token available''), logout_start e w)
      | Some t \<Rightarrow>
          if t = [] then Some (Rejected (Error ''No refresh token available''), logout_start e w)
          else
            (case request n e (refresh_config t) w of
               None \<Rightarrow> None
             | Some (Rejected err, w1) \<Rightarrow> Some (Rejected err, logout_start e w1)
             | Some (Fulfilled r, w1) \<Rightarrow>
                 (case response_data r of
                    None \<Rightarrow> Some (Rejected (TypeError destructure_message), logout_start e w1)
                  | Some d \<Rightarrow>
                      Some (Fulfilled (access_token d),
                            w1\<lparr>user := data_user d,
                               accessToken := access_token d,
                               refreshToken := refresh_token d,
                               isAuthenticated := True,
                               common := (common w1)(''Authorization'' \<mapsto>
                                            bearer (access_token d))\<rparr>))))"

subsection \<open>The auth store\<close>

record action_result =
  success :: bool
  error :: "string option"

definition init_world :: world where
  "init_world = \<lparr>user = None, accessToken = None, refreshToken = None,
                  isAuthenticated = False, isLoading = False, common = Map.empty,
                  toasts = [], href = None, console = [], sent = [], pending = []\<rparr>"

text \<open>
  \<^verbatim>\<open>login\<close>, \<^verbatim>\<open>register\<close> and \<^verbatim>\<open>loginWithFacebook\<close> (lines 17-114) are the same
  code up to the path, the request body and the two messages.
\<close>

definition sign_in_failed :: "js_error \<Rightarrow> string \<Rightarrow> world \<Rightarrow> (action_result \<times> world) option" where
  "sign_in_failed err fallback w =
     (let m = or_else (error_detail err) fallback
      in Some (\<lparr>success = False, error = Some m\<rparr>,
               w\<lparr>isLoading := False, toasts := toasts w @ [ToastError m]\<rparr>))"

definition sign_in ::
  "string \<Rightarrow> (string \<times> string) list \<Rightarrow> string \<Rightarrow> string \<Rightarrow> nat \<Rightarrow> env \<Rightarrow> world
     \<Rightarrow> (action_result \<times> world) option" where
  "sign_in path body welcome fallback n e w =
     (case request n e (api_post path (Some body) no_config) (w\<lparr>isLoading := True\<rparr>) of
        None \<Rightarrow> None
      | Some (Rejected err, w1) \<Rightarrow> sign_in_failed err fallback w1
      | Some (Fulfilled r, w1) \<Rightarrow>
          (case response_data r of
             None \<Rightarrow> sign_in_failed (TypeError destructure_message) fallback w1
           | Some d \<Rightarrow>
               Some (\<lparr>success = True, error = None\<rparr>,
                     w1\<lparr>user := data_user d,
                        accessToken := access_token d,
                        refreshToken := refresh_token d,
                        isAuthenticated := True,
                        isLoading := False,
                        common := (common w1)(''Authorization'' \<mapsto>
                                     bearer (access_token d)),
                        toasts := toasts w1 @ [ToastSuccess welcome]\<rparr>)))"

definition login :: "string \<Rightarrow> string \<Rightarrow> nat \<Rightarrow> env \<Rightarrow> world \<Rightarrow> (action_result \<times> world) option" where
  "login email password =
     sign_in ''/auth/login'' [(''email'', email), (''password'', password)]
       ''Successfully logged in!'' ''Login failed''"

definition register ::
  "string \<Rightarrow> string \<Rightarrow> string \<Rightarrow> nat \<Rightarrow> env \<Rightarrow> world \<Rightarrow> (action_result \<times> world) option" where
  "register email password fullName =
     sign_in ''/auth/register''
       [(''email'', email), (''password'', password), (''full_name'', fullName)]
       ''Account created successfully!'' ''Registration failed''"

definition loginWithFacebook :: "string \<Rightarrow> nat \<Rightarrow> env \<Rightarrow> world \<Rightarrow> (action_result \<times> world) option" where
  "loginWithFacebook token =
     sign_in ''/auth/facebook'' [(''access_token'', token)]
       ''Successfully logged in with Facebook!'' ''Facebook login failed''"

text \<open>
  \<^verbatim>\<open>logout\<close> (lines 116-138). \<open>logout_finish\<close> is the code after the \<^verbatim>\<open>try\<close>;
  \<open>logout_resume\<close> is the call from the moment the answer to its POST is in: the
  response interceptor runs on it, a rejection is logged on the console, and the
  state is cleared. \<open>logout\<close> is the awaited call, start to end.
\<close>

definition logout_finish :: "world \<Rightarrow> world" where
  "logout_finish w =
     w\<lparr>user := None, accessToken := None, refreshToken := None,
       isAuthenticated := False, isLoading := False,
       common := (common w)(''Authorization'' := None),
       toasts := toasts w @ [ToastSuccess ''Successfully logged out'']\<rparr>"

definition logout_resume :: "nat \<Rightarrow> env \<Rightarrow> js_error + response \<Rightarrow> world \<Rightarrow> world option" where
  "logout_resume n e res w =
     (case res of
        Inr r \<Rightarrow> Some (logout_finish w)
      | Inl err \<Rightarrow>
          (case on_rejected n e err w of
             None \<Rightarrow> None
           | Some (Fulfilled r, w1) \<Rightarrow> Some (logout_finish w1)
           | Some (Rejected err', w1) \<Rightarrow>
               Some (logout_finish (w1\<lparr>console := console w1 @ [err']\<rparr>))))"

definition logout :: "nat \<Rightarrow> env \<Rightarrow> world \<Rightarrow> world option" where
  "logout n e w =
     (case send e (merge_defaults w logout_config) w of
        (res, w1) \<Rightarrow> logout_resume n e res w1)"

text \<open>The logout calls that nobody awaited run to their end, oldest first.\<close>

fun run_pending :: "nat \<Rightarrow> env \<Rightarrow> world \<Rightarrow> world option" where
  "run_pending 0 e w = (if pending w = [] then Some w else None)"
| "run_pending (Suc n) e w =
     (case pending w of
        [] \<Rightarrow> Some w
      | res # rest \<Rightarrow>
          (case logout_resume n e res (w\<lparr>pending := rest\<rparr>) of
             None \<Rightarrow> None
           | Some w1 \<Rightarrow> run_pending n e w1))"

definition updateProfile ::
  "(string \<times> string) list \<Rightarrow> nat \<Rightarrow> env \<Rightarrow> world \<Rightarrow> (action_result \<times> world) option" where
  "updateProfile profileData n e w =
     (case request n e (api_put ''/users/profile'' (Some profileData) no_config) w of
        None \<Rightarrow> None
      | Some (Fulfilled r, w1) \<Rightarrow>
          Some (\<lparr>success = True, error = None\<rparr>,
                w1\<lparr>user := response_data r,
                   toasts := toasts w1 @ [ToastSuccess ''Profile updated successfully!'']\<rparr>)
      | Some (Rejected err, w1) \<Rightarrow>
          (let m = or_else (error_detail err) ''Profile update failed''
           in Some (\<lparr>success = False, error = Some m\<rparr>,
                    w1\<lparr>toasts := toasts w1 @ [ToastError m]\<rparr>)))"

definition initialize :: "world \<Rightarrow> world" where
  "initialize w =
     (if truthy (accessToken w)
      then w\<lparr>common := (common w)(''Authorization'' \<mapsto> bearer (accessToken w)),
             isAuthenticated := True\<rparr>
      else w)"

text \<open>
  A page load (lines 202-215): the \<^verbatim>\<open>persist\<close> middleware restores the four fields
  that \<^verbatim>\<open>partialize\<close> keeps, everything else starts afresh, calls in flight are
  gone, and \<open>initialize\<close> runs.
\<close>

definition reload :: "world \<Rightarrow> world" where
  "reload w = initialize (w\<lparr>isLoading := False, common := Map.empty, pending := []\<rparr>)"

subsection \<open>The guarded client\<close>

record client_result = action_result +
  data :: "jsdata option"

text \<open>
  The four methods of \<^verbatim>\<open>apiClient\<close> (api.js, lines 97-153) wrap a call of the
  instance in the same \<^verbatim>\<open>try\<close>/\<^verbatim>\<open>catch\<close>.
\<close>

definition guarded :: "(response settled \<times> world) option \<Rightarrow> (client_result settled \<times> world) option" where
  "guarded p =
     (case p of
        None \<Rightarrow> None
      | Some (Fulfilled r, w) \<Rightarrow>
          Some (Fulfilled \<lparr>success = True, error = None, data = response_data r\<rparr>, w)
      | Some (Rejected err, w) \<Rightarrow>
          Some (Fulfilled \<lparr>success = False,
                           error = Some (or_else (error_detail err) (message err)),
                           data = None\<rparr>, w))"

definition apiClient_get ::
  "string \<Rightarrow> config \<Rightarrow> nat \<Rightarrow> env \<Rightarrow> world \<Rightarrow> (client_result settled \<times> world) option" where
  "apiClient_get u c n e w = guarded (request n e (api_get u c) w)"

definition apiClient_post ::
  "string \<Rightarrow> (string \<times> string) list \<Rightarrow> config \<Rightarrow> nat \<Rightarrow> env \<Rightarrow> world
     \<Rightarrow> (client_result settled \<times> world) option" where
  "apiClient_post u d c n e w = guarded (request n e (api_post u (Some d) c) w)"

definition apiClient_put ::
  "string \<Rightarrow> (string \<times> string) list \<Rightarrow> config \<Rightarrow> nat \<Rightarrow> env \<Rightarrow> world
     \<Rightarrow> (client_result settled \<times> world) option" where
  "apiClient_put u d c n e w = guarded (request n e (api_put u (Some d) c) w)"

definition apiClient_delete ::
  "string \<Rightarrow> config \<Rightarrow> nat \<Rightarrow> env \<Rightarrow> world \<Rightarrow> (client_result settled \<times> world) option" where
  "apiClient_delete u c n e w = guarded (request n e (api_delete u c) w)"

section \<open>Scenarios and specification-level definitions\<close>

text \<open>
  An environment that answers the requests with the listed outcomes, in order, and
  does not answer any later request.
\<close>

definition scripted :: "outcome list \<Rightarrow> env" where
  "scripted outs = \<lparr>server = (\<lambda>k. if k < length outs then outs ! k else NoReply ''Network Error''),
                    clock = (\<lambda>k. 1000 + k)\<rparr>"

text \<open>The wait that a 429 notification suggests, in the words of the specification.\<close>

definition wait_hint :: "response \<Rightarrow> string" where
  "wait_hint r = (case response_headers r ''retry-after'' of
                    None \<Rightarrow> ''60''
                  | Some v \<Rightarrow> if v = [] then ''60'' else v)"

text \<open>A request that carries the cache-busting parameter \<^verbatim>\<open>_t\<close>.\<close>

definition stamped :: "config \<Rightarrow> bool" where
  "stamped c = (case params c ''_t'' of Some (Time t) \<Rightarrow> True | _ \<Rightarrow> False)"

text \<open>Between two worlds, only requests with the parameter went out.\<close>

definition adds_stamped :: "world \<Rightarrow> world \<Rightarrow> bool" where
  "adds_stamped w w' = (\<exists>new. sent w' = sent w @ new \<and> list_all stamped new)"

definition network_toast :: toast where
  "network_toast = ToastError ''Network error. Please check your connection''"

text \<open>
  What a method of \<^verbatim>\<open>apiClient\<close> resolves to, in the words of the specification:
  the data and \<^verbatim>\<open>success: true\<close> when the call fulfils; on an error no data,
  \<^verbatim>\<open>success: false\<close> and the body's \<^verbatim>\<open>detail\<close> when it has one, the error's
  message otherwise.
\<close>

definition spec_result :: "response settled \<Rightarrow> client_result" where
  "spec_result s =
     (case s of
        Fulfilled r \<Rightarrow> \<lparr>success = True, error = None, data = response_data r\<rparr>
      | Rejected err \<Rightarrow>
          \<lparr>success = False,
           error = Some (case error_detail err of
                           None \<Rightarrow> message err
                         | Some d \<Rightarrow> if d = [] then message err else d),
           data = None\<rparr>)"

text \<open>The session is torn down: the four fields and the default header are gone.\<close>

definition cleared :: "world \<Rightarrow> bool" where
  "cleared w = (user w = None \<and> accessToken w = None \<and> refreshToken w = None
                \<and> \<not> isAuthenticated w \<and> common w ''Authorization'' = None)"

text \<open>An answer other than a 401: a response with another status, or none.\<close>

definition not_401 :: "outcome \<Rightarrow> bool" where
  "not_401 out = (case out of Reply r \<Rightarrow> status r \<noteq> 401 | NoReply m \<Rightarrow> True)"

text \<open>The invariant of the session: an access token is held only while authenticated.\<close>

definition session_invariant :: "world \<Rightarrow> bool" where
  "session_invariant w = (accessToken w \<noteq> None \<longrightarrow> isAuthenticated w)"

definition keeps_invariant :: "world \<Rightarrow> world \<Rightarrow> bool" where
  "keeps_invariant w w' = (session_invariant w \<longrightarrow> session_invariant w')"

text \<open>
  The default header follows the session: while a usable access token is held, the
  instance's default \<^verbatim>\<open>Authorization\<close> header is the bearer header of that token.
\<close>

definition header_follows_token :: "world \<Rightarrow> bool" where
  "header_follows_token w =
     (truthy (accessToken w) \<longrightarrow> common w ''Authorization'' = Some (bearer (accessToken w)))"

definition keeps_header :: "world \<Rightarrow> world \<Rightarrow> bool" where
  "keeps_header w w' = (header_follows_token w \<longrightarrow> header_follows_token w')"

text \<open>
  The states of the store that the program reaches: from the initial state, by a call
  of the instance from anywhere in the application, by each action of the store, by
  the completion of a logout call that was left pending, and by a page load. Each
  step may meet a different environment.
\<close>

inductive reachable :: "world \<Rightarrow> bool" where
  start: "reachable init_world"
| call: "reachable w \<Longrightarrow> request n e c w = Some (res, w') \<Longrightarrow> reachable w'"
| login: "reachable w \<Longrightarrow> login email password n e w = Some (ans, w') \<Longrightarrow> reachable w'"
| register:
    "reachable w \<Longrightarrow> register email password fullName n e w = Some (ans, w') \<Longrightarrow> reachable w'"
| loginWithFacebook:
    "reachable w \<Longrightarrow> loginWithFacebook token n e w = Some (ans, w') \<Longrightarrow> reachable w'"
| logout: "reachable w \<Longrightarrow> logout n e w = Some w' \<Longrightarrow> reachable w'"
| resume:
    "reachable w \<Longrightarrow> pending w = res' # rest \<Longrightarrow>
     logout_resume n e res' (w\<lparr>pending := rest\<rparr>) = Some w' \<Longrightarrow> reachable w'"
| refreshAccessToken:
    "reachable w \<Longrightarrow> refreshAccessToken n e w = Some (tok, w') \<Longrightarrow> reachable w'"
| updateProfile:
    "reachable w \<Longrightarrow> updateProfile profileData n e w = Some (ans, w') \<Longrightarrow> reachable w'"
| initialize: "reachable w \<Longrightarrow> reachable (initialize w)"
| reload: "reachable w \<Longrightarrow> reachable (reload w)"

subsection \<open>A session and four server behaviours\<close>

text \<open>
  A login that succeeds from the initial state (\<open>logged_in\<close>), and what the server
  may do next when a report is requested: the access token has expired and the
  refresh succeeds (\<open>rotating\<close>), the retried request is refused again
  (\<open>rejecting\<close>), the refresh fails (\<open>failing\<close>), or every request from now on is
  refused, the refresh requests included (\<open>expired\<close>).
\<close>

definition login_body :: jsdata where
  "login_body = Data None (Some ''old'') (Some ''r1'') (Some (Data None None None None))"

definition ok :: "jsdata \<Rightarrow> outcome" where
  "ok d = Reply (Response 200 Map.empty (Some d))"

definition login_config :: config where
  "login_config = request_interceptor 1000
     (api_post ''/auth/login'' (Some [(''email'', ''ana@example.org''), (''password'', ''secret'')])
        no_config)"

definition logged_in :: world where
  "logged_in = init_world\<lparr>user := Some (Data None None None None),
                           accessToken := Some ''old'', refreshToken := Some ''r1'',
                           isAuthenticated := True,
                           common := [''Authorization'' \<mapsto> ''Bearer old''],
                           toasts := [ToastSuccess ''Successfully logged in!''],
                           sent := [login_config]\<rparr>"

definition refresh_body :: jsdata where
  "refresh_body = Data None (Some ''new'') (Some ''r2'') (Some (Data None None None None))"

definition report_body :: jsdata where
  "report_body = Data None None None None"

definition denied_response :: response where
  "denied_response = Response 401 Map.empty (Some (Data (Some ''Token has expired'') None None None))"

definition failed_response :: response where
  "failed_response = Response 500 Map.empty None"

definition reports_first :: config where
  "reports_first = \<lparr>url = ''/reports'', http_method = ''get'', params = [''_t'' \<mapsto> Time 1001],
                     headers = [''Authorization'' \<mapsto> ''Bearer old''], payload = None,
                     retry = False\<rparr>"

definition refresh_sent :: config where
  "refresh_sent = \<lparr>url = ''/auth/refresh'', http_method = ''post'',
                    params = [''_t'' \<mapsto> Time 1002],
                    headers = [''Authorization'' \<mapsto> ''Bearer old''],
                    payload = Some [(''refresh_token'', ''r1'')], retry = False\<rparr>"

definition reports_again :: config where
  "reports_again = \<lparr>url = ''/reports'', http_method = ''get'', params = [''_t'' \<mapsto> Time 1003],
                     headers = [''Authorization'' \<mapsto> ''Bearer old''], payload = None,
                     retry = True\<rparr>"

definition refreshed :: world where
  "refreshed = logged_in\<lparr>accessToken := Some ''new'', refreshToken := Some ''r2'',
                          common := [''Authorization'' \<mapsto> ''Bearer new''],
                          sent := [login_config, reports_first, refresh_sent]\<rparr>"

definition rotating :: env where
  "rotating = scripted [ok login_body, Reply denied_response, ok refresh_body, ok report_body]"

definition rejecting :: env where
  "rejecting = scripted [ok login_body, Reply denied_response, ok refresh_body, Reply denied_response]"

definition failing :: env where
  "failing = scripted [ok login_body, Reply denied_response, Reply failed_response,
                       ok report_body, ok report_body]"

definition logout_sent :: "nat \<Rightarrow> config" where
  "logout_sent now = \<lparr>url = ''/auth/logout'', http_method = ''post'',
                       params = [''_t'' \<mapsto> Time now],
                       headers = [''Authorization'' \<mapsto> ''Bearer old''],
                       payload = None, retry = False\<rparr>"

definition expired :: env where
  "expired = \<lparr>server = (\<lambda>k. if k = 0 then ok login_body else Reply denied_response),
               clock = (\<lambda>k. 1000 + k)\<rparr>"

section \<open>Properties\<close>

subsection \<open>Evaluation lemmas\<close>

lemma string_of_nat_429: "string_of_nat 429 = ''429''"
  by code_simp

lemma string_of_nat_401: "string_of_nat 401 = ''401''"
  by code_simp

lemma string_of_nat_404: "string_of_nat 404 = ''404''"
  by code_simp

lemma string_of_nat_500: "string_of_nat 500 = ''500''"
  by code_simp

lemma has_status_Some [simp]: "has_status (Some r) s = (status r = s)"
  by (simp add: has_status_def)

lemma has_status_None [simp]: "has_status None s = False"
  by (simp add: has_status_def)

lemma notifications_401: "status r = 401 \<Longrightarrow> notifications (Some r) = []"
  by (simp add: notifications_def)

lemma adapter_401:
  "status r = 401 \<Longrightarrow>
   adapter c (Reply r) =
     Inl (AxiosError (''Request failed with status code '' @ string_of_nat 401) c (Some r))"
  by (simp add: adapter_def)

lemma adapter_not_401:
  "not_401 out \<Longrightarrow> adapter c out = Inl err \<Longrightarrow> \<exists>m x. err = AxiosError m c x \<and> \<not> has_status x 401"
  by (auto simp: adapter_def not_401_def split: outcome.splits if_splits)

lemmas scenario_defs =
  scripted_def ok_def login_body_def refresh_body_def report_body_def denied_response_def
  failed_response_def reports_first_def refresh_sent_def reports_again_def refreshed_def
  logged_in_def init_world_def login_config_def

lemmas client_defs =
  send_def Let_def adapter_def merge_defaults_def request_interceptor_def notify_def
  notifications_def api_get_def api_post_def no_config_def refresh_config_def truthy_def
  bearer_def template_def logout_start_def logout_config_def

subsection \<open>Rate limiting\<close>

text \<open>
  C7. A request that is answered with status 429 is rejected, and the client shows
  one notification: ``Too many requests. Please try again in \<open>N\<close> seconds'', where
  \<open>N\<close> is the value of the response's \<^verbatim>\<open>retry-after\<close> header when the header has a
  value, and 60 otherwise. (An empty header value is falsy for \<^verbatim>\<open>||\<close> and gives 60
  as well.) Any fuel of two or more suffices.
\<close>

theorem rate_limit_notification:
  assumes "server e (length (sent w)) = Reply r"
    and "status r = 429"
    and "c1 = request_interceptor (clock e (length (sent w))) (merge_defaults w c)"
  shows "request (Suc (Suc n)) e c w =
           Some (Rejected (AxiosError (''Request failed with status code '' @ string_of_nat 429)
                             c1 (Some r)),
                 w\<lparr>sent := sent w @ [c1],
                   toasts := toasts w @
                     [ToastError (''Too many requests. Please try again in ''
                                  @ wait_hint r @ '' seconds'')]\<rparr>)"
  using assms
  by (simp add: send_def Let_def adapter_def has_status_def notify_def notifications_def
        or_else_def retry_after_def wait_hint_def split: option.splits)

theorem rate_limit_notification_witness:
  "request (Suc (Suc 0)) (scripted [Reply (Response 429 [''retry-after'' \<mapsto> ''45''] None)])
       (api_get ''/reports'' no_config) init_world
     = Some (Rejected (AxiosError ''Request failed with status code 429''
                (request_interceptor 1000 (api_get ''/reports'' no_config))
                (Some (Response 429 [''retry-after'' \<mapsto> ''45''] None))),
             init_world\<lparr>sent := [request_interceptor 1000 (api_get ''/reports'' no_config)],
               toasts := [ToastError ''Too many requests. Please try again in 45 seconds'']\<rparr>)
   \<and> request (Suc (Suc 0)) (scripted [Reply (Response 429 Map.empty None)])
       (api_get ''/reports'' no_config) init_world
     = Some (Rejected (AxiosError ''Request failed with status code 429''
                (request_interceptor 1000 (api_get ''/reports'' no_config))
                (Some (Response 429 Map.empty None))),
             init_world\<lparr>sent := [request_interceptor 1000 (api_get ''/reports'' no_config)],
               toasts := [ToastError ''Too many requests. Please try again in 60 seconds'']\<rparr>)"
  using rate_limit_notification [of "scripted [Reply (Response 429 [''retry-after'' \<mapsto> ''45''] None)]"
      init_world "Response 429 [''retry-after'' \<mapsto> ''45''] None"
      "request_interceptor 1000 (api_get ''/reports'' no_config)" "api_get ''/reports'' no_config" 0]
    rate_limit_notification [of "scripted [Reply (Response 429 Map.empty None)]"
      init_world "Response 429 Map.empty None"
      "request_interceptor 1000 (api_get ''/reports'' no_config)" "api_get ''/reports'' no_config" 0]
  by (simp add: scripted_def init_world_def merge_defaults_def wait_hint_def
        string_of_nat_429)

subsection \<open>What every run of the client preserves\<close>

text \<open>
  A relation between worlds that is reflexive and transitive and that holds across
  each elementary step of the client holds across every settled call of the
  instance, of the rejected handler and of the refresh operation.
\<close>

lemma logout_start_send:
  "logout_start e w = (snd (send e (merge_defaults w logout_config) w))
       \<lparr>pending := pending w @ [fst (send e (merge_defaults w logout_config) w)]\<rparr>"
  by (simp add: logout_start_def send_def Let_def)

lemma client_preserves:
  assumes refl: "\<And>w. R w w"
    and trans: "\<And>w w1 w2. R w w1 \<Longrightarrow> R w1 w2 \<Longrightarrow> R w w2"
    and snd: "\<And>c w. R w (snd (send e c w))"
    and ntf: "\<And>r w. R w (notify r w)"
    and lgo: "\<And>w. R w (logout_start e w)"
    and hrf: "\<And>w. R w (w\<lparr>href := Some ''/login''\<rparr>)"
    and rfr: "\<And>w d. R w (w\<lparr>user := data_user d, accessToken := access_token d,
                 refreshToken := refresh_token d, isAuthenticated := True,
                 common := (common w)(''Authorization'' \<mapsto> bearer (access_token d))\<rparr>)"
  shows "(\<forall>c w res w'. request n e c w = Some (res, w') \<longrightarrow> R w w') \<and>
   (\<forall>err w res w'. on_rejected n e err w = Some (res, w') \<longrightarrow> R w w') \<and>
   (\<forall>w res w'. refreshAccessToken n e w = Some (res, w') \<longrightarrow> R w w')"
proof (induction n)
  case 0
  show ?case by simp
next
  case (Suc n)
  have req: "R w w'" if "request (Suc n) e c w = Some (res, w')" for c w res w'
  proof (cases "send e (merge_defaults w c) w")
    case (Pair a w1)
    have s: "R w w1" using snd [of w "merge_defaults w c"] Pair by simp
    show ?thesis
    proof (cases a)
      case (Inr r)
      with Pair that s show ?thesis by simp
    next
      case (Inl err)
      with Pair that have "on_rejected n e err w1 = Some (res, w')" by simp
      with Suc have "R w1 w'" by blast
      with s show ?thesis by (rule trans)
    qed
  qed
  have rej: "R w w'" if h: "on_rejected (Suc n) e err w = Some (res, w')" for err w res w'
  proof (cases err)
    case (AxiosError m c r)
    show ?thesis
    proof (cases "has_status r 401 \<and> \<not> retry c \<and> truthy (refreshToken w)")
      case False
      with h AxiosError have "w' = notify r w"
        by (auto split: if_splits)
      then show ?thesis by (simp add: ntf)
    next
      case True
      show ?thesis
      proof (cases "refreshAccessToken n e w")
        case None
        with h AxiosError True show ?thesis by simp
      next
        case (Some p)
        obtain t w1 where p: "p = (t, w1)" by (cases p)
        from Suc Some p have a: "R w w1" by blast
        show ?thesis
        proof (cases t)
          case (Fulfilled x)
          with h AxiosError True Some p
          have "request n e (c\<lparr>retry := True\<rparr>) w1 = Some (res, w')" by simp
          with Suc have "R w1 w'" by blast
          with a show ?thesis by (rule trans)
        next
          case (Rejected x)
          with h AxiosError True Some p
          have "w' = (logout_start e w1)\<lparr>href := Some ''/login''\<rparr>" by auto
          then have "R w1 w'"
            using trans [OF lgo [of w1] hrf [of "logout_start e w1"]] by simp
          with a show ?thesis by (rule trans)
        qed
      qed
    qed
  next
    case (Error m)
    with h have "w' = notify None w" by auto
    then show ?thesis by (simp add: ntf)
  next
    case (TypeError m)
    with h have "w' = notify None w" by auto
    then show ?thesis by (simp add: ntf)
  qed
  have ref: "R w w'" if h: "refreshAccessToken (Suc n) e w = Some (res, w')" for w res w'
  proof (cases "truthy (refreshToken w)")
    case False
    with h have "w' = logout_start e w"
      by (auto simp: truthy_def split: option.splits if_splits)
    then show ?thesis by (simp add: lgo)
  next
    case True
    then obtain t where t: "refreshToken w = Some t" "t \<noteq> []"
      by (auto simp: truthy_def split: option.splits)
    show ?thesis
    proof (cases "request n e (refresh_config t) w")
      case None
      with h t show ?thesis by simp
    next
      case (Some p)
      obtain s w1 where p: "p = (s, w1)" by (cases p)
      from Suc Some p have a: "R w w1" by blast
      have "R w1 w'"
      proof (cases s)
        case (Rejected x)
        with h t Some p have "w' = logout_start e w1" by simp
        then show ?thesis by (simp add: lgo)
      next
        case (Fulfilled r)
        show ?thesis
        proof (cases "response_data r")
          case None
          with h t Some p Fulfilled have "w' = logout_start e w1" by simp
          then show ?thesis by (simp add: lgo)
        next
          case (Some d)
          with h t \<open>request n e (refresh_config t) w = Some p\<close> p Fulfilled
          have "w' = w1\<lparr>user := data_user d, accessToken := access_token d,
                 refreshToken := refresh_token d, isAuthenticated := True,
                 common := (common w1)(''Authorization'' \<mapsto> bearer (access_token d))\<rparr>" by auto
          then show ?thesis by (simp add: rfr)
        qed
      qed
      with a show ?thesis by (rule trans)
    qed
  qed
  from req rej ref show ?case by blast
qed

subsection \<open>The cache-busting parameter\<close>

lemma adds_stamped_trans: "adds_stamped w w1 \<Longrightarrow> adds_stamped w1 w2 \<Longrightarrow> adds_stamped w w2"
  by (auto simp: adds_stamped_def)

lemma send_stamps: "adds_stamped w (snd (send e c w))"
  by (simp add: send_def Let_def adds_stamped_def stamped_def request_interceptor_def)

lemma logout_start_stamps: "adds_stamped w (logout_start e w)"
  by (simp add: logout_start_send send_def Let_def adds_stamped_def stamped_def
        request_interceptor_def)

lemma client_stamps:
  "(\<forall>c w res w'. request n e c w = Some (res, w') \<longrightarrow> adds_stamped w w') \<and>
   (\<forall>err w res w'. on_rejected n e err w = Some (res, w') \<longrightarrow> adds_stamped w w') \<and>
   (\<forall>w res w'. refreshAccessToken n e w = Some (res, w') \<longrightarrow> adds_stamped w w')"
proof (rule client_preserves)
  show "adds_stamped w w" for w by (simp add: adds_stamped_def)
  show "adds_stamped w w1 \<Longrightarrow> adds_stamped w1 w2 \<Longrightarrow> adds_stamped w w2" for w w1 w2
    by (rule adds_stamped_trans)
  show "adds_stamped w (snd (send e c w))" for c w by (rule send_stamps)
  show "adds_stamped w (notify r w)" for r w by (simp add: adds_stamped_def notify_def)
  show "adds_stamped w (logout_start e w)" for w by (rule logout_start_stamps)
  show "adds_stamped w (w\<lparr>href := Some ''/login''\<rparr>)" for w by (simp add: adds_stamped_def)
  show "adds_stamped w (w\<lparr>user := data_user d, accessToken := access_token d,
                 refreshToken := refresh_token d, isAuthenticated := True,
                 common := (common w)(''Authorization'' \<mapsto> bearer (access_token d))\<rparr>)" for w d
    by (simp add: adds_stamped_def)
qed

text \<open>
  C9. Every request that a call of the instance puts on the wire carries the
  parameter \<^verbatim>\<open>_t\<close>: a settled call has sent at least one request, has left the
  earlier ones as they were, and each request it sent is stamped. The request
  interceptor sets \<^verbatim>\<open>_t\<close> to the time it is given.
\<close>

theorem cache_busting_parameter:
  assumes run: "request n e c w = Some (res, w')"
  shows "take (length (sent w)) (sent w') = sent w
         \<and> length (sent w) < length (sent w')
         \<and> list_all stamped (drop (length (sent w)) (sent w'))
         \<and> params (request_interceptor now c) ''_t'' = Some (Time now)"
proof -
  obtain m where n: "n = Suc m" using run by (cases n) auto
  obtain a w1 where s: "send e (merge_defaults w c) w = (a, w1)"
    by (cases "send e (merge_defaults w c) w")
  then have w1: "sent w1 = sent w @ [request_interceptor (clock e (length (sent w))) (merge_defaults w c)]"
    by (auto simp: send_def Let_def)
  have st: "stamped (request_interceptor (clock e (length (sent w))) (merge_defaults w c))"
    by (simp add: stamped_def request_interceptor_def)
  have "adds_stamped w1 w'"
  proof (cases a)
    case (Inr r)
    with run n s show ?thesis by (simp add: adds_stamped_def)
  next
    case (Inl err)
    with run n s have "on_rejected m e err w1 = Some (res, w')" by simp
    with client_stamps show ?thesis by blast
  qed
  then obtain new where new: "sent w' = sent w1 @ new" "list_all stamped new"
    by (auto simp: adds_stamped_def)
  with w1 st show ?thesis by (simp add: request_interceptor_def)
qed

theorem cache_busting_parameter_witness:
  "request (Suc (Suc 0)) (scripted [Reply (Response 404 Map.empty None)])
       (api_get ''/reports'' (no_config\<lparr>params := [''page'' \<mapsto> Text ''2'']\<rparr>)) init_world
     = Some (Rejected (AxiosError (''Request failed with status code '' @ string_of_nat 404)
                (request_interceptor 1000
                   (api_get ''/reports'' (no_config\<lparr>params := [''page'' \<mapsto> Text ''2'']\<rparr>)))
                (Some (Response 404 Map.empty None))),
             init_world\<lparr>sent := [request_interceptor 1000
                   (api_get ''/reports'' (no_config\<lparr>params := [''page'' \<mapsto> Text ''2'']\<rparr>))],
               toasts := [ToastError ''The requested resource was not found'']\<rparr>)
   \<and> list_all stamped [request_interceptor 1000
                   (api_get ''/reports'' (no_config\<lparr>params := [''page'' \<mapsto> Text ''2'']\<rparr>))]
   \<and> params (request_interceptor 1000
                   (api_get ''/reports'' (no_config\<lparr>params := [''page'' \<mapsto> Text ''2'']\<rparr>))) ''_t''
        = Some (Time 1000)
   \<and> params (request_interceptor 1000
                   (api_get ''/reports'' (no_config\<lparr>params := [''page'' \<mapsto> Text ''2'']\<rparr>))) ''page''
        = Some (Text ''2'')"
proof -
  let ?c = "api_get ''/reports'' (no_config\<lparr>params := [''page'' \<mapsto> Text ''2'']\<rparr>)"
  let ?e = "scripted [Reply (Response 404 Map.empty None)]"
  let ?w = "init_world\<lparr>sent := [request_interceptor 1000 ?c],
               toasts := [ToastError ''The requested resource was not found'']\<rparr>"
  have run: "request (Suc (Suc 0)) ?e ?c init_world
     = Some (Rejected (AxiosError (''Request failed with status code '' @ string_of_nat 404)
                (request_interceptor 1000 ?c) (Some (Response 404 Map.empty None))), ?w)"
    by (simp add: scripted_def init_world_def merge_defaults_def send_def Let_def adapter_def
          has_status_def notify_def notifications_def)
  from cache_busting_parameter [OF run, of 1000] run show ?thesis
    by (simp add: init_world_def request_interceptor_def api_get_def no_config_def)
qed

subsection \<open>Network failures\<close>

lemma notifications_None: "notifications None = [network_toast]"
  by (simp add: notifications_def has_status_def network_toast_def)

lemma notifications_Some: "network_toast \<notin> set (notifications (Some r))"
  by (simp add: notifications_def has_status_def network_toast_def)

text \<open>
  C8. A request that receives no response is rejected with the transport's error, and
  the client shows the network-error notification, the whole classification of an
  error without a response; no error that carries a response, whatever its status,
  is classified with that notification. Any fuel of two or more suffices.
\<close>

theorem network_error_classification:
  assumes "server e (length (sent w)) = NoReply m"
    and "c1 = request_interceptor (clock e (length (sent w))) (merge_defaults w c)"
  shows "request (Suc (Suc n)) e c w =
           Some (Rejected (AxiosError m c1 None),
                 w\<lparr>sent := sent w @ [c1], toasts := toasts w @ [network_toast]\<rparr>)
         \<and> notifications None = [network_toast]
         \<and> network_toast \<notin> set (notifications (Some r))"
  using assms
  by (simp add: send_def Let_def adapter_def has_status_def notify_def notifications_None
        notifications_Some)

theorem network_error_classification_witness:
  "request (Suc (Suc 0)) (scripted [NoReply ''timeout of 30000ms exceeded''])
       (api_get ''/reports'' no_config) init_world
     = Some (Rejected (AxiosError ''timeout of 30000ms exceeded''
                (request_interceptor 1000 (api_get ''/reports'' no_config)) None),
             init_world\<lparr>sent := [request_interceptor 1000 (api_get ''/reports'' no_config)],
               toasts := [ToastError ''Network error. Please check your connection'']\<rparr>)
   \<and> ToastError ''Network error. Please check your connection''
        \<notin> set (notifications (Some (Response 503 Map.empty None)))"
  using network_error_classification [of "scripted [NoReply ''timeout of 30000ms exceeded'']"
      init_world "''timeout of 30000ms exceeded''"
      "request_interceptor 1000 (api_get ''/reports'' no_config)" "api_get ''/reports'' no_config"
      0 "Response 503 Map.empty None"]
  by (simp add: scripted_def init_world_def merge_defaults_def network_toast_def)

subsection \<open>The guarded client never rejects\<close>

lemma guarded_spec:
  "guarded p = map_option (\<lambda>(s, w). (Fulfilled (spec_result s), w)) p"
  by (auto simp: guarded_def spec_result_def or_else_def
      split: option.splits settled.splits prod.splits)

text \<open>
  C10. Each of \<^verbatim>\<open>apiClient.get\<close>, \<^verbatim>\<open>post\<close>, \<^verbatim>\<open>put\<close> and \<^verbatim>\<open>delete\<close> settles exactly
  when the underlying call of the instance settles, and then it is fulfilled, never
  rejected, with the result the specification describes: the response data and
  \<^verbatim>\<open>success: true\<close>, or no data, \<^verbatim>\<open>success: false\<close> and as error the body's
  \<^verbatim>\<open>detail\<close> when it has one (an empty one counts as absent), the error's message
  otherwise.
\<close>

theorem apiClient_never_rejects:
  "apiClient_get u c n e w =
     map_option (\<lambda>(s, w'). (Fulfilled (spec_result s), w')) (request n e (api_get u c) w)
   \<and> apiClient_post u d c n e w =
     map_option (\<lambda>(s, w'). (Fulfilled (spec_result s), w')) (request n e (api_post u (Some d) c) w)
   \<and> apiClient_put u d c n e w =
     map_option (\<lambda>(s, w'). (Fulfilled (spec_result s), w')) (request n e (api_put u (Some d) c) w)
   \<and> apiClient_delete u c n e w =
     map_option (\<lambda>(s, w'). (Fulfilled (spec_result s), w')) (request n e (api_delete u c) w)"
  by (simp add: apiClient_get_def apiClient_post_def apiClient_put_def apiClient_delete_def
        guarded_spec)

theorem apiClient_never_rejects_witness:
  "apiClient_get ''/reports'' no_config (Suc (Suc 0))
       (scripted [Reply (Response 404 Map.empty
                    (Some (Data (Some ''Report not found'') None None None)))]) init_world
     = Some (Fulfilled \<lparr>success = False, error = Some ''Report not found'', data = None\<rparr>,
             init_world\<lparr>sent := [request_interceptor 1000 (api_get ''/reports'' no_config)],
               toasts := [ToastError ''The requested resource was not found'']\<rparr>)
   \<and> apiClient_post ''/reports'' [] no_config (Suc (Suc 0))
       (scripted [NoReply ''Network Error'']) init_world
     = Some (Fulfilled \<lparr>success = False, error = Some ''Network Error'', data = None\<rparr>,
             init_world\<lparr>sent := [request_interceptor 1000 (api_post ''/reports'' (Some []) no_config)],
               toasts := [ToastError ''Network error. Please check your connection'']\<rparr>)
   \<and> apiClient_delete ''/reports/7'' no_config (Suc 0) (scripted [ok report_body]) init_world
     = Some (Fulfilled \<lparr>success = True, error = None, data = Some report_body\<rparr>,
             init_world\<lparr>sent := [request_interceptor 1000 (api_delete ''/reports/7'' no_config)]\<rparr>)"
  using apiClient_never_rejects [where u = "''/reports''" and c = no_config and n = "Suc (Suc 0)"
      and e = "scripted [Reply (Response 404 Map.empty
                    (Some (Data (Some ''Report not found'') None None None)))]"
      and w = init_world]
    apiClient_never_rejects [where u = "''/reports''" and c = no_config and n = "Suc (Suc 0)"
      and e = "scripted [NoReply ''Network Error'']" and w = init_world and d = "[]"]
    apiClient_never_rejects [where u = "''/reports/7''" and c = no_config and n = "Suc 0"
      and e = "scripted [ok report_body]" and w = init_world]
  by (simp add: spec_result_def error_detail_def scenario_defs client_defs api_delete_def)

subsection \<open>The session invariant\<close>

lemma client_keeps_invariant:
  "(\<forall>c w res w'. request n e c w = Some (res, w') \<longrightarrow> keeps_invariant w w') \<and>
   (\<forall>err w res w'. on_rejected n e err w = Some (res, w') \<longrightarrow> keeps_invariant w w') \<and>
   (\<forall>w res w'. refreshAccessToken n e w = Some (res, w') \<longrightarrow> keeps_invariant w w')"
proof (rule client_preserves)
  show "keeps_invariant w w" for w by (simp add: keeps_invariant_def)
  show "keeps_invariant w w1 \<Longrightarrow> keeps_invariant w1 w2 \<Longrightarrow> keeps_invariant w w2" for w w1 w2
    by (simp add: keeps_invariant_def)
  show "keeps_invariant w (snd (send e c w))" for c w
    by (simp add: keeps_invariant_def session_invariant_def send_def Let_def)
  show "keeps_invariant w (notify r w)" for r w
    by (simp add: keeps_invariant_def session_invariant_def notify_def)
  show "keeps_invariant w (logout_start e w)" for w
    by (simp add: keeps_invariant_def session_invariant_def logout_start_send send_def Let_def)
  show "keeps_invariant w (w\<lparr>href := Some ''/login''\<rparr>)" for w
    by (simp add: keeps_invariant_def session_invariant_def)
  show "keeps_invariant w (w\<lparr>user := data_user d, accessToken := access_token d,
                 refreshToken := refresh_token d, isAuthenticated := True,
                 common := (common w)(''Authorization'' \<mapsto> bearer (access_token d))\<rparr>)" for w d
    by (simp add: keeps_invariant_def session_invariant_def)
qed

lemma request_keeps_invariant:
  "request n e c w = Some (res, w') \<Longrightarrow> session_invariant w \<Longrightarrow> session_invariant w'"
  using client_keeps_invariant [of n e] by (auto simp: keeps_invariant_def)

lemma on_rejected_keeps_invariant:
  "on_rejected n e err w = Some (res, w') \<Longrightarrow> session_invariant w \<Longrightarrow> session_invariant w'"
  using client_keeps_invariant [of n e] by (auto simp: keeps_invariant_def)

lemma refresh_keeps_invariant:
  "refreshAccessToken n e w = Some (res, w') \<Longrightarrow> session_invariant w \<Longrightarrow> session_invariant w'"
  using client_keeps_invariant [of n e] by (auto simp: keeps_invariant_def)

lemma sign_in_invariant:
  assumes "sign_in path body welcome fallback n e w = Some (ans, w')" and "session_invariant w"
  shows "session_invariant w'"
proof (cases "request n e (api_post path (Some body) no_config) (w\<lparr>isLoading := True\<rparr>)")
  case None
  with assms show ?thesis by (simp add: sign_in_def)
next
  case (Some p)
  obtain s w1 where p: "p = (s, w1)" by (cases p)
  have "session_invariant (w\<lparr>isLoading := True\<rparr>)"
    using assms(2) by (simp add: session_invariant_def)
  with Some p have "session_invariant w1" by (auto dest: request_keeps_invariant)
  with assms(1) Some p show ?thesis
    by (auto simp: sign_in_def sign_in_failed_def Let_def session_invariant_def
        split: settled.splits option.splits)
qed

lemma logout_finish_invariant: "session_invariant (logout_finish w)"
  by (simp add: session_invariant_def logout_finish_def)

lemma logout_resume_invariant: "logout_resume n e res w = Some w' \<Longrightarrow> session_invariant w'"
  by (auto simp: logout_resume_def logout_finish_invariant
      split: sum.splits option.splits prod.splits settled.splits)

lemma updateProfile_invariant:
  assumes "updateProfile profileData n e w = Some (ans, w')" and "session_invariant w"
  shows "session_invariant w'"
proof (cases "request n e (api_put ''/users/profile'' (Some profileData) no_config) w")
  case None
  with assms show ?thesis by (simp add: updateProfile_def)
next
  case (Some p)
  obtain s w1 where p: "p = (s, w1)" by (cases p)
  with Some assms(2) have "session_invariant w1" by (auto dest: request_keeps_invariant)
  with assms(1) Some p show ?thesis
    by (auto simp: updateProfile_def Let_def session_invariant_def split: settled.splits)
qed

lemma initialize_invariant: "session_invariant w \<Longrightarrow> session_invariant (initialize w)"
  by (simp add: initialize_def session_invariant_def)

text \<open>
  C4. In every state that the store's operations reach (login, register,
  loginWithFacebook, logout, refreshAccessToken, updateProfile and initialize, and
  also calls of the instance, pending logouts and page loads), an access token is
  held only while \<open>isAuthenticated\<close> is true.
\<close>

theorem token_only_while_authenticated:
  "reachable w \<Longrightarrow> session_invariant w"
proof (induction rule: reachable.induct)
  case start
  show ?case by (simp add: session_invariant_def init_world_def)
next
  case (call w n e c res w')
  then show ?case by (auto dest: request_keeps_invariant)
next
  case (login w email password n e ans w')
  then show ?case by (auto simp: login_def dest: sign_in_invariant)
next
  case (register w email password fullName n e ans w')
  then show ?case by (auto simp: register_def dest: sign_in_invariant)
next
  case (loginWithFacebook w token n e ans w')
  then show ?case by (auto simp: loginWithFacebook_def dest: sign_in_invariant)
next
  case (logout w n e w')
  then show ?case
    by (auto simp: logout_def dest: logout_resume_invariant split: prod.splits)
next
  case (resume w res' rest n e w')
  then show ?case by (auto dest: logout_resume_invariant)
next
  case (refreshAccessToken w n e tok w')
  then show ?case by (auto dest: refresh_keeps_invariant)
next
  case (updateProfile w profileData n e ans w')
  then show ?case by (auto dest: updateProfile_invariant)
next
  case (initialize w)
  then show ?case by (simp add: initialize_invariant)
next
  case (reload w)
  then show ?case
    by (simp add: reload_def initialize_def session_invariant_def)
qed

lemma login_succeeds:
  "server e 0 = ok login_body \<Longrightarrow> clock e 0 = 1000 \<Longrightarrow>
   login ''ana@example.org'' ''secret'' (Suc n) e init_world
     = Some (\<lparr>success = True, error = None\<rparr>, logged_in)"
  by (simp add: login_def sign_in_def init_world_def send_def Let_def adapter_def ok_def
        login_body_def logged_in_def login_config_def merge_defaults_def bearer_def template_def)

text \<open>Each of the four server behaviours begins with the login that leaves \<open>logged_in\<close>.\<close>

lemma scenario_logins:
  "login ''ana@example.org'' ''secret'' (Suc n) rotating init_world
     = Some (\<lparr>success = True, error = None\<rparr>, logged_in)"
  "login ''ana@example.org'' ''secret'' (Suc n) rejecting init_world
     = Some (\<lparr>success = True, error = None\<rparr>, logged_in)"
  "login ''ana@example.org'' ''secret'' (Suc n) failing init_world
     = Some (\<lparr>success = True, error = None\<rparr>, logged_in)"
  "login ''ana@example.org'' ''secret'' (Suc n) expired init_world
     = Some (\<lparr>success = True, error = None\<rparr>, logged_in)"
  by (rule login_succeeds;
      simp add: rotating_def rejecting_def failing_def expired_def scripted_def)+

theorem token_only_while_authenticated_witness:
  "reachable logged_in \<and> accessToken logged_in = Some ''old'' \<and> isAuthenticated logged_in"
proof -
  have "login ''ana@example.org'' ''secret'' (Suc 0) (scripted [ok login_body]) init_world
     = Some (\<lparr>success = True, error = None\<rparr>, logged_in)"
    by (rule login_succeeds) (simp_all add: scripted_def)
  with reachable.start have r: "reachable logged_in" by (rule reachable.login)
  from token_only_while_authenticated [OF r] r show ?thesis
    by (simp add: session_invariant_def logged_in_def)
qed


subsection \<open>Logout\<close>

text \<open>
  Whenever a logout call settles, awaited or not, the session is torn down, whatever
  the answer to its request was.
\<close>

lemma logout_finish_cleared: "cleared (logout_finish w)"
  by (simp add: cleared_def logout_finish_def)

lemma logout_resume_clears: "logout_resume n e res w = Some w' \<Longrightarrow> cleared w'"
  by (auto simp: logout_resume_def logout_finish_cleared
      split: sum.splits option.splits prod.splits settled.splits)

lemma logout_clears: "logout n e w = Some w' \<Longrightarrow> cleared w'"
  by (auto simp: logout_def dest: logout_resume_clears split: prod.splits)

lemma run_pending_clears:
  "run_pending n e w = Some w' \<Longrightarrow> pending w \<noteq> [] \<or> cleared w \<Longrightarrow> cleared w' \<and> pending w' = []"
proof (induction n arbitrary: w)
  case 0
  then show ?case by (auto split: if_splits)
next
  case (Suc n)
  show ?case
  proof (cases "pending w")
    case Nil
    with Suc.prems show ?thesis by simp
  next
    case (Cons res rest)
    with Suc.prems obtain w1 where
      w1: "logout_resume n e res (w\<lparr>pending := rest\<rparr>) = Some w1"
      and r: "run_pending n e w1 = Some w'"
      by (auto split: option.splits)
    from w1 have "cleared w1" by (rule logout_resume_clears)
    with Suc.IH [OF r] show ?thesis by simp
  qed
qed

text \<open>An answer other than a 401 settles the call with any fuel of one or more.\<close>

lemma logout_resume_settles':
  assumes "not_401 out"
  obtains w' where "logout_resume (Suc n) e (adapter c out) w = Some w'" "pending w' = pending w"
proof (cases "adapter c out")
  case (Inr r)
  then show ?thesis using that by (simp add: logout_resume_def logout_finish_def)
next
  case (Inl err)
  with adapter_not_401 [OF assms Inl] show ?thesis using that
    by (auto simp: logout_resume_def logout_finish_def notify_def)
qed

lemma run_two_pending:
  assumes "pending w = [adapter ca a, adapter cb b]" "not_401 a" "not_401 b"
  shows "run_pending (Suc (Suc (Suc n))) e w \<noteq> None"
proof -
  obtain w1 where w1:
    "logout_resume (Suc (Suc n)) e (adapter ca a) (w\<lparr>pending := [adapter cb b]\<rparr>) = Some w1"
    "pending w1 = [adapter cb b]"
    using logout_resume_settles' [OF assms(2), of "Suc n" e ca "w\<lparr>pending := [adapter cb b]\<rparr>"]
    by auto
  obtain w2 where w2:
    "logout_resume (Suc n) e (adapter cb b) (w1\<lparr>pending := []\<rparr>) = Some w2"
    "pending w2 = []"
    using logout_resume_settles' [OF assms(3), of n e cb "w1\<lparr>pending := []\<rparr>"]
    by auto
  from assms(1) w1 w2 show ?thesis by simp
qed

lemma logout_settles:
  assumes "not_401 (server e (length (sent w)))"
  shows "logout (Suc n) e w \<noteq> None"
proof -
  obtain w' where "logout_resume (Suc n) e
      (adapter (request_interceptor (clock e (length (sent w))) (merge_defaults w logout_config))
         (server e (length (sent w))))
      (w\<lparr>sent := sent w @ [request_interceptor (clock e (length (sent w)))
                                (merge_defaults w logout_config)]\<rparr>) = Some w'"
    using logout_resume_settles' [OF assms] by blast
  then show ?thesis by (simp add: logout_def send_def Let_def)
qed

text \<open>
  While a refresh token is held and the server refuses every request with a 401, no
  call settles: the rejected handler starts a refresh, the refresh request is refused,
  and the handler of that request starts the next refresh.
\<close>

lemma endless_refresh_from:
  assumes denied: "\<And>k. k0 \<le> k \<Longrightarrow> \<exists>r. server e k = Reply r \<and> status r = 401"
  shows "(\<forall>c w. k0 \<le> length (sent w) \<longrightarrow> truthy (refreshToken w) \<longrightarrow> \<not> retry c \<longrightarrow>
              request n e c w = None) \<and>
         (\<forall>m c r w. k0 \<le> length (sent w) \<longrightarrow> truthy (refreshToken w) \<longrightarrow> \<not> retry c \<longrightarrow>
              has_status r 401 \<longrightarrow> on_rejected n e (AxiosError m c r) w = None) \<and>
         (\<forall>w. k0 \<le> length (sent w) \<longrightarrow> truthy (refreshToken w) \<longrightarrow>
              refreshAccessToken n e w = None)"
proof (induction n)
  case 0
  show ?case by simp
next
  case (Suc n)
  have req: "request (Suc n) e c w = None"
    if "k0 \<le> length (sent w)" "truthy (refreshToken w)" "\<not> retry c" for c w
  proof -
    from denied that(1) obtain r where r: "server e (length (sent w)) = Reply r" "status r = 401"
      by blast
    with that Suc show ?thesis
      by (simp add: send_def Let_def adapter_def merge_defaults_def request_interceptor_def)
  qed
  have rej: "on_rejected (Suc n) e (AxiosError m c r) w = None"
    if "k0 \<le> length (sent w)" "truthy (refreshToken w)" "\<not> retry c" "has_status r 401"
    for m c r w
    using that Suc by simp
  have ref: "refreshAccessToken (Suc n) e w = None"
    if "k0 \<le> length (sent w)" "truthy (refreshToken w)" for w
  proof -
    from that obtain t where t: "refreshToken w = Some t" "t \<noteq> []"
      by (cases "refreshToken w") (auto simp: truthy_def)
    have "\<not> retry (refresh_config t)"
      by (simp add: refresh_config_def api_post_def no_config_def)
    with Suc that have "request n e (refresh_config t) w = None" by blast
    with t show ?thesis by simp
  qed
  from req rej ref show ?case by blast
qed

text \<open>
  C5. The logout of a session whose tokens the server no longer accepts: the POST to
  \<^verbatim>\<open>/auth/logout\<close> is answered 401, and so is every refresh request. The awaited call
  does not settle with any fuel, so the code after the \<^verbatim>\<open>try\<close> never runs and the
  four fields and the header stay as they were.
\<close>

theorem logout_never_clears: "logout n expired logged_in = None"
proof -
  have d: "\<exists>r. server expired k = Reply r \<and> status r = 401" if "1 \<le> k" for k
    using that by (simp add: expired_def denied_response_def)
  have "on_rejected n expired (AxiosError m c (Some denied_response)) w = None"
    if "1 \<le> length (sent w)" "truthy (refreshToken w)" "\<not> retry c" for m c w
    using endless_refresh_from [of 1 expired n, OF d] that
    by (simp add: denied_response_def)
  then show ?thesis
    by (simp add: logout_def send_def Let_def adapter_def logout_resume_def expired_def
          logged_in_def init_world_def logout_config_def api_post_def no_config_def
          merge_defaults_def request_interceptor_def truthy_def denied_response_def)
qed

subsection \<open>The retry after a refresh\<close>

text \<open>
  A request that is answered 401, is not marked as a retry, and meets a refresh that
  succeeds, is sent a second time, marked, with the headers of the first attempt;
  when that attempt is answered with a 2xx status the call fulfils. Any fuel of four
  or more suffices.
\<close>

lemma retry_after_refresh:
  assumes fresh: "\<not> retry c"
    and token: "refreshToken w = Some t" "t \<noteq> []"
    and k: "k = length (sent w)"
    and first: "server e k = Reply r1" "status r1 = 401"
    and refresh: "server e (Suc k) = Reply r2" "200 \<le> status r2" "status r2 < 300"
                 "response_data r2 = Some d"
    and second: "server e (Suc (Suc k)) = Reply r3" "200 \<le> status r3" "status r3 < 300"
    and c1: "c1 = request_interceptor (clock e k) (merge_defaults w c)"
    and c2: "c2 = request_interceptor (clock e (Suc k)) (merge_defaults w (refresh_config t))"
    and c3: "c3 = request_interceptor (clock e (Suc (Suc k)))
                    (merge_defaults
                       (w\<lparr>common := (common w)(''Authorization'' \<mapsto> bearer (access_token d))\<rparr>)
                       (c1\<lparr>retry := True\<rparr>))"
  shows "request (Suc (Suc (Suc (Suc n)))) e c w =
     Some (Fulfilled r3,
           w\<lparr>user := data_user d, accessToken := access_token d,
             refreshToken := refresh_token d, isAuthenticated := True,
             common := (common w)(''Authorization'' \<mapsto> bearer (access_token d)),
             sent := sent w @ [c1, c2, c3]\<rparr>)"
  using assms
  by (simp add: send_def Let_def adapter_def truthy_def merge_defaults_def
        request_interceptor_def)

lemma retry_keeps_authorization:
  assumes "headers (merge_defaults w c) ''Authorization'' = Some h"
  shows "headers (request_interceptor now'
                    (merge_defaults w'
                       ((request_interceptor now (merge_defaults w c))\<lparr>retry := True\<rparr>)))
           ''Authorization'' = Some h"
  using assms by (simp add: merge_defaults_def request_interceptor_def map_add_def)

text \<open>
  C1. After a login, a request for a report is answered 401, the refresh succeeds
  and installs the token \<^verbatim>\<open>new\<close>, and the request is issued once more and answered
  200: the call fulfils, three requests went out after the login, and the re-issued
  one still carries \<^verbatim>\<open>Bearer old\<close>, the header of the first attempt, not the
  refreshed token that the session and the defaults now hold.
\<close>

theorem retry_carries_stale_token:
  "request (Suc (Suc (Suc (Suc 0)))) rotating (api_get ''/reports'' no_config) logged_in
     = Some (Fulfilled (Response 200 Map.empty (Some report_body)),
             refreshed\<lparr>sent := [login_config, reports_first, refresh_sent, reports_again]\<rparr>)
   \<and> accessToken refreshed = Some ''new''
   \<and> common refreshed ''Authorization'' = Some ''Bearer new''
   \<and> headers reports_again ''Authorization'' = Some ''Bearer old''"
  by (simp add: rotating_def scenario_defs client_defs)

text \<open>
  In every reachable state the default header follows the session, so a request
  whose config brings no \<^verbatim>\<open>Authorization\<close> header of its own goes out with the
  bearer header of the current access token. A re-issued request does bring one: the
  header of its first attempt.
\<close>

lemma client_keeps_header:
  "(\<forall>c w res w'. request n e c w = Some (res, w') \<longrightarrow> keeps_header w w') \<and>
   (\<forall>err w res w'. on_rejected n e err w = Some (res, w') \<longrightarrow> keeps_header w w') \<and>
   (\<forall>w res w'. refreshAccessToken n e w = Some (res, w') \<longrightarrow> keeps_header w w')"
proof (rule client_preserves)
  show "keeps_header w w" for w by (simp add: keeps_header_def)
  show "keeps_header w w1 \<Longrightarrow> keeps_header w1 w2 \<Longrightarrow> keeps_header w w2" for w w1 w2
    by (simp add: keeps_header_def)
  show "keeps_header w (snd (send e c w))" for c w
    by (simp add: keeps_header_def header_follows_token_def send_def Let_def)
  show "keeps_header w (notify r w)" for r w
    by (simp add: keeps_header_def header_follows_token_def notify_def)
  show "keeps_header w (logout_start e w)" for w
    by (simp add: keeps_header_def header_follows_token_def logout_start_send send_def Let_def)
  show "keeps_header w (w\<lparr>href := Some ''/login''\<rparr>)" for w
    by (simp add: keeps_header_def header_follows_token_def)
  show "keeps_header w (w\<lparr>user := data_user d, accessToken := access_token d,
                 refreshToken := refresh_token d, isAuthenticated := True,
                 common := (common w)(''Authorization'' \<mapsto> bearer (access_token d))\<rparr>)" for w d
    by (simp add: keeps_header_def header_follows_token_def)
qed

lemma request_keeps_header:
  "request n e c w = Some (res, w') \<Longrightarrow> header_follows_token w \<Longrightarrow> header_follows_token w'"
  using client_keeps_header [of n e] by (auto simp: keeps_header_def)

lemma on_rejected_keeps_header:
  "on_rejected n e err w = Some (res, w') \<Longrightarrow> header_follows_token w \<Longrightarrow> header_follows_token w'"
  using client_keeps_header [of n e] by (auto simp: keeps_header_def)

lemma refresh_keeps_header:
  "refreshAccessToken n e w = Some (res, w') \<Longrightarrow> header_follows_token w \<Longrightarrow> header_follows_token w'"
  using client_keeps_header [of n e] by (auto simp: keeps_header_def)

lemma sign_in_header:
  assumes "sign_in path body welcome fallback n e w = Some (ans, w')" and "header_follows_token w"
  shows "header_follows_token w'"
proof (cases "request n e (api_post path (Some body) no_config) (w\<lparr>isLoading := True\<rparr>)")
  case None
  with assms show ?thesis by (simp add: sign_in_def)
next
  case (Some p)
  obtain s w1 where p: "p = (s, w1)" by (cases p)
  have "header_follows_token (w\<lparr>isLoading := True\<rparr>)"
    using assms(2) by (simp add: header_follows_token_def)
  with Some p have "header_follows_token w1" by (auto dest: request_keeps_header)
  with assms(1) Some p show ?thesis
    by (auto simp: sign_in_def sign_in_failed_def Let_def header_follows_token_def
        split: settled.splits option.splits)
qed

lemma logout_resume_header: "logout_resume n e res w = Some w' \<Longrightarrow> header_follows_token w'"
  by (auto simp: logout_resume_def logout_finish_def header_follows_token_def truthy_def
      split: sum.splits option.splits prod.splits settled.splits)

lemma updateProfile_header:
  assumes "updateProfile profileData n e w = Some (ans, w')" and "header_follows_token w"
  shows "header_follows_token w'"
proof (cases "request n e (api_put ''/users/profile'' (Some profileData) no_config) w")
  case None
  with assms show ?thesis by (simp add: updateProfile_def)
next
  case (Some p)
  obtain s w1 where p: "p = (s, w1)" by (cases p)
  with Some assms(2) have "header_follows_token w1" by (auto dest: request_keeps_header)
  with assms(1) Some p show ?thesis
    by (auto simp: updateProfile_def Let_def header_follows_token_def split: settled.splits)
qed

lemma reachable_header: "reachable w \<Longrightarrow> header_follows_token w"
proof (induction rule: reachable.induct)
  case start
  show ?case by (simp add: header_follows_token_def init_world_def truthy_def)
next
  case (call w n e c res w')
  then show ?case by (auto dest: request_keeps_header)
next
  case (login w email password n e ans w')
  then show ?case by (auto simp: login_def dest: sign_in_header)
next
  case (register w email password fullName n e ans w')
  then show ?case by (auto simp: register_def dest: sign_in_header)
next
  case (loginWithFacebook w token n e ans w')
  then show ?case by (auto simp: loginWithFacebook_def dest: sign_in_header)
next
  case (logout w n e w')
  then show ?case
    by (auto simp: logout_def dest: logout_resume_header split: prod.splits)
next
  case (resume w res' rest n e w')
  then show ?case by (auto dest: logout_resume_header)
next
  case (refreshAccessToken w n e tok w')
  then show ?case by (auto dest: refresh_keeps_header)
next
  case (updateProfile w profileData n e ans w')
  then show ?case by (auto dest: updateProfile_header)
next
  case (initialize w)
  then show ?case by (simp add: initialize_def header_follows_token_def)
next
  case (reload w)
  then show ?case
    by (simp add: reload_def initialize_def header_follows_token_def)
qed

lemma fresh_request_header:
  assumes "reachable w" and "truthy (accessToken w)" and "headers c ''Authorization'' = None"
  shows "headers (request_interceptor now (merge_defaults w c)) ''Authorization''
           = Some (bearer (accessToken w))"
  using reachable_header [OF assms(1)] assms(2,3)
  by (simp add: header_follows_token_def merge_defaults_def request_interceptor_def map_add_def)

text \<open>
  C6. The same run, step by step: the refresh leaves a session whose current access
  token is \<^verbatim>\<open>new\<close>; the request issued in that state goes out with an
  \<^verbatim>\<open>Authorization\<close> header that is not \<^verbatim>\<open>Bearer new\<close>.
\<close>

theorem request_after_refresh_carries_old_header:
  "refreshAccessToken (Suc (Suc 0)) rotating (logged_in\<lparr>sent := [login_config, reports_first]\<rparr>)
     = Some (Fulfilled (Some ''new''), refreshed)
   \<and> accessToken refreshed = Some ''new''
   \<and> request (Suc 0) rotating (reports_first\<lparr>retry := True\<rparr>) refreshed
     = Some (Fulfilled (Response 200 Map.empty (Some report_body)),
             refreshed\<lparr>sent := [login_config, reports_first, refresh_sent, reports_again]\<rparr>)
   \<and> headers reports_again ''Authorization'' \<noteq> Some (bearer (accessToken refreshed))"
  by (simp add: rotating_def scenario_defs client_defs)

subsection \<open>A second 401\<close>

text \<open>
  C2, as the code has it. A request that is answered 401, is not marked as a retry
  and meets a refresh that succeeds is re-issued once; when the re-issued request is
  answered 401 as well, its error is rejected to the caller and nothing else happens:
  no further refresh, no logout, no redirect. The session is not torn down; it holds
  what the refresh installed. Any fuel of four or more suffices.
\<close>

theorem second_401_is_propagated:
  assumes fresh: "\<not> retry c"
    and token: "refreshToken w = Some t" "t \<noteq> []"
    and k: "k = length (sent w)"
    and first: "server e k = Reply r1" "status r1 = 401"
    and refresh: "server e (Suc k) = Reply r2" "200 \<le> status r2" "status r2 < 300"
                 "response_data r2 = Some d"
    and second: "server e (Suc (Suc k)) = Reply r3" "status r3 = 401"
    and c1: "c1 = request_interceptor (clock e k) (merge_defaults w c)"
    and c2: "c2 = request_interceptor (clock e (Suc k)) (merge_defaults w (refresh_config t))"
    and c3: "c3 = request_interceptor (clock e (Suc (Suc k)))
                    (merge_defaults
                       (w\<lparr>common := (common w)(''Authorization'' \<mapsto> bearer (access_token d))\<rparr>)
                       (c1\<lparr>retry := True\<rparr>))"
  shows "request (Suc (Suc (Suc (Suc n)))) e c w =
     Some (Rejected (AxiosError (''Request failed with status code '' @ string_of_nat 401)
                        c3 (Some r3)),
           w\<lparr>user := data_user d, accessToken := access_token d,
             refreshToken := refresh_token d, isAuthenticated := True,
             common := (common w)(''Authorization'' \<mapsto> bearer (access_token d)),
             sent := sent w @ [c1, c2, c3]\<rparr>)"
  using assms
  by (simp add: send_def Let_def adapter_def truthy_def notify_def notifications_401
        merge_defaults_def request_interceptor_def)

theorem second_401_is_propagated_witness:
  "request (Suc (Suc (Suc (Suc (Suc 0))))) rejecting (api_post ''/reports'' (Some []) no_config)
       logged_in
     = Some (Rejected (AxiosError ''Request failed with status code 401''
                         (reports_again\<lparr>http_method := ''post'', payload := Some []\<rparr>)
                         (Some denied_response)),
             refreshed\<lparr>sent := [login_config,
                                 reports_first\<lparr>http_method := ''post'', payload := Some []\<rparr>,
                                 refresh_sent,
                                 reports_again\<lparr>http_method := ''post'', payload := Some []\<rparr>]\<rparr>)"
  using second_401_is_propagated [where e = rejecting and w = logged_in and n = "Suc 0"
      and c = "api_post ''/reports'' (Some []) no_config" and t = "''r1''" and k = 1
      and ?r1.0 = denied_response and ?r2.0 = "Response 200 Map.empty (Some refresh_body)"
      and d = refresh_body and ?r3.0 = denied_response
      and ?c1.0 = "reports_first\<lparr>http_method := ''post'', payload := Some []\<rparr>"
      and ?c2.0 = refresh_sent
      and ?c3.0 = "reports_again\<lparr>http_method := ''post'', payload := Some []\<rparr>"]
  by (simp add: rejecting_def scenario_defs client_defs string_of_nat_401)

text \<open>
  The claim as stated fails in the run of \<open>rejecting\<close>: both attempts are answered
  401, and the session is not torn down.
\<close>

theorem second_401_counterexample:
  "request (Suc (Suc (Suc (Suc 0)))) rejecting (api_get ''/reports'' no_config) logged_in
     = Some (Rejected (AxiosError ''Request failed with status code 401'' reports_again
                         (Some denied_response)),
             refreshed\<lparr>sent := [login_config, reports_first, refresh_sent, reports_again]\<rparr>)
   \<and> accessToken (refreshed\<lparr>sent := [login_config, reports_first, refresh_sent, reports_again]\<rparr>)
       = Some ''new''
   \<and> isAuthenticated (refreshed\<lparr>sent := [login_config, reports_first, refresh_sent, reports_again]\<rparr>)
   \<and> pending (refreshed\<lparr>sent := [login_config, reports_first, refresh_sent, reports_again]\<rparr>) = []
   \<and> \<not> cleared (refreshed\<lparr>sent := [login_config, reports_first, refresh_sent, reports_again]\<rparr>)"
  by (simp add: rejecting_def scenario_defs client_defs string_of_nat_401 cleared_def)

subsection \<open>A refresh that fails\<close>

lemma logout_start_fields:
  "user (logout_start e w) = user w \<and> accessToken (logout_start e w) = accessToken w
   \<and> refreshToken (logout_start e w) = refreshToken w
   \<and> isAuthenticated (logout_start e w) = isAuthenticated w
   \<and> common (logout_start e w) = common w \<and> href (logout_start e w) = href w
   \<and> toasts (logout_start e w) = toasts w
   \<and> sent (logout_start e w) =
       sent w @ [request_interceptor (clock e (length (sent w))) (merge_defaults w logout_config)]
   \<and> pending (logout_start e w) =
       pending w @ [adapter (request_interceptor (clock e (length (sent w)))
                               (merge_defaults w logout_config))
                      (server e (length (sent w)))]"
  by (simp add: logout_start_send send_def Let_def)

lemma refresh_failure_run:
  assumes fresh: "\<not> retry c"
    and k: "k = length (sent w)"
    and first: "server e k = Reply r1" "status r1 = 401"
    and c1: "c1 = request_interceptor (clock e k) (merge_defaults w c)"
    and token: "refreshToken w = Some t" "t \<noteq> []"
    and c2: "c2 = request_interceptor (clock e (Suc k)) (merge_defaults w (refresh_config t))"
    and failure: "adapter c2 (server e (Suc k)) = Inl err" "not_401 (server e (Suc k))"
  shows "request (Suc (Suc (Suc (Suc (Suc n))))) e c w =
           Some (Rejected err,
                 (logout_start e (logout_start e
                    (notify (error_response err) (w\<lparr>sent := sent w @ [c1, c2]\<rparr>))))
                 \<lparr>href := Some ''/login''\<rparr>)"
proof -
  from adapter_not_401 [OF failure(2) failure(1)]
  obtain m x where err: "err = AxiosError m c2 x" "\<not> has_status x 401" by blast
  show ?thesis
    using fresh k first c1 token c2 failure(1) err
    by (simp add: send_def Let_def truthy_def merge_defaults_def request_interceptor_def
          adapter_401)
qed

lemma no_refresh_token_run:
  assumes fresh: "\<not> retry c"
    and k: "k = length (sent w)"
    and first: "server e k = Reply r1" "status r1 = 401"
    and c1: "c1 = request_interceptor (clock e k) (merge_defaults w c)"
    and token: "\<not> truthy (refreshToken w)"
  shows "request (Suc (Suc n)) e c w =
           Some (Rejected (AxiosError (''Request failed with status code '' @ string_of_nat 401)
                             (c1\<lparr>retry := True\<rparr>) (Some r1)),
                 w\<lparr>sent := sent w @ [c1]\<rparr>)"
  using assms
  by (simp add: send_def Let_def merge_defaults_def request_interceptor_def adapter_401
        notify_def notifications_401)

text \<open>
  C3, as the code has it. A request is answered 401 and is not marked as a retry.
  \<^item> When a refresh token is held and the refresh request fails with an answer
    other than a 401, the call is rejected with the error of the refresh request, not
    with the original one; the refresh failure is notified, logout is started twice
    without being awaited (once by the refresh operation, once by the interceptor) and
    the location is set to \<^verbatim>\<open>/login\<close>. Once the pending logout calls have
    settled the session is torn down, and they settle when their requests are answered
    with anything but a 401.
  \<^item> When no refresh token is held, no refresh is attempted and the original error
    is rejected to the caller.
\<close>

theorem refresh_failure_escalates:
  assumes fresh: "\<not> retry c"
    and k: "k = length (sent w)"
    and first: "server e k = Reply r1" "status r1 = 401"
    and c1: "c1 = request_interceptor (clock e k) (merge_defaults w c)"
  shows "(refreshToken w = Some t \<and> t \<noteq> []
          \<and> c2 = request_interceptor (clock e (Suc k)) (merge_defaults w (refresh_config t))
          \<and> adapter c2 (server e (Suc k)) = Inl err \<and> not_401 (server e (Suc k))
          \<and> w' = (logout_start e (logout_start e
                     (notify (error_response err) (w\<lparr>sent := sent w @ [c1, c2]\<rparr>))))
                  \<lparr>href := Some ''/login''\<rparr>
          \<longrightarrow> request (Suc (Suc (Suc (Suc (Suc n))))) e c w = Some (Rejected err, w')
              \<and> href w' = Some ''/login''
              \<and> length (pending w') = length (pending w) + 2
              \<and> (\<forall>m w''. run_pending m e w' = Some w'' \<longrightarrow> cleared w'')
              \<and> (pending w = [] \<and> not_401 (server e (Suc (Suc k)))
                    \<and> not_401 (server e (Suc (Suc (Suc k))))
                  \<longrightarrow> run_pending (Suc (Suc (Suc n))) e w' \<noteq> None))
       \<and> (\<not> truthy (refreshToken w)
          \<longrightarrow> request (Suc (Suc n)) e c w =
                Some (Rejected (AxiosError (''Request failed with status code '' @ string_of_nat 401)
                                  (c1\<lparr>retry := True\<rparr>) (Some r1)),
                      w\<lparr>sent := sent w @ [c1]\<rparr>))"
proof (intro conjI impI)
  assume h: "refreshToken w = Some t \<and> t \<noteq> []
          \<and> c2 = request_interceptor (clock e (Suc k)) (merge_defaults w (refresh_config t))
          \<and> adapter c2 (server e (Suc k)) = Inl err \<and> not_401 (server e (Suc k))
          \<and> w' = (logout_start e (logout_start e
                     (notify (error_response err) (w\<lparr>sent := sent w @ [c1, c2]\<rparr>))))
                  \<lparr>href := Some ''/login''\<rparr>"
  then have a: "refreshToken w = Some t" "t \<noteq> []"
    "c2 = request_interceptor (clock e (Suc k)) (merge_defaults w (refresh_config t))"
    "adapter c2 (server e (Suc k)) = Inl err" "not_401 (server e (Suc k))"
    and w': "w' = (logout_start e (logout_start e
                     (notify (error_response err) (w\<lparr>sent := sent w @ [c1, c2]\<rparr>))))
                  \<lparr>href := Some ''/login''\<rparr>"
    by blast+
  show "request (Suc (Suc (Suc (Suc (Suc n))))) e c w = Some (Rejected err, w')"
    unfolding w' by (rule refresh_failure_run [OF fresh k first c1 a])
  from h show "href w' = Some ''/login''" by simp
  from h have p: "pending w' =
      pending w @ [adapter (request_interceptor (clock e (Suc (Suc k))) (merge_defaults w logout_config))
                     (server e (Suc (Suc k))),
                   adapter (request_interceptor (clock e (Suc (Suc (Suc k)))) (merge_defaults w logout_config))
                     (server e (Suc (Suc (Suc k))))]"
    using k by (simp add: logout_start_fields notify_def merge_defaults_def)
  then show "length (pending w') = length (pending w) + 2" by simp
  show "\<forall>m w''. run_pending m e w' = Some w'' \<longrightarrow> cleared w''"
    using p run_pending_clears by fastforce
  show "run_pending (Suc (Suc (Suc n))) e w' \<noteq> None"
    if "pending w = [] \<and> not_401 (server e (Suc (Suc k))) \<and> not_401 (server e (Suc (Suc (Suc k))))"
    using that p run_two_pending by simp
next
  assume "\<not> truthy (refreshToken w)"
  then show "request (Suc (Suc n)) e c w =
                Some (Rejected (AxiosError (''Request failed with status code '' @ string_of_nat 401)
                                  (c1\<lparr>retry := True\<rparr>) (Some r1)),
                      w\<lparr>sent := sent w @ [c1]\<rparr>)"
    using no_refresh_token_run [OF fresh k first c1] by simp
qed

theorem refresh_failure_escalates_witness:
  "request (Suc (Suc (Suc (Suc (Suc 0))))) failing (api_get ''/reports'' no_config)
       (logged_in\<lparr>isLoading := True\<rparr>)
     = Some (Rejected (AxiosError ''Request failed with status code 500'' refresh_sent
                         (Some failed_response)),
             logged_in\<lparr>isLoading := True,
                       toasts := [ToastSuccess ''Successfully logged in!'',
                                   ToastError ''Server error. Please try again later''],
                       href := Some ''/login'',
                       sent := [login_config, reports_first, refresh_sent,
                                logout_sent 1003, logout_sent 1004],
                       pending := [Inr (Response 200 Map.empty (Some report_body)),
                                   Inr (Response 200 Map.empty (Some report_body))]\<rparr>)
   \<and> run_pending (Suc (Suc (Suc 0))) failing
         (logged_in\<lparr>isLoading := True,
                       toasts := [ToastSuccess ''Successfully logged in!'',
                                   ToastError ''Server error. Please try again later''],
                       href := Some ''/login'',
                       sent := [login_config, reports_first, refresh_sent,
                                logout_sent 1003, logout_sent 1004],
                       pending := [Inr (Response 200 Map.empty (Some report_body)),
                                   Inr (Response 200 Map.empty (Some report_body))]\<rparr>) \<noteq> None
   \<and> request (Suc (Suc 0)) failing (api_get ''/reports'' no_config)
         (logged_in\<lparr>refreshToken := None\<rparr>)
     = Some (Rejected (AxiosError ''Request failed with status code 401''
                         (reports_first\<lparr>retry := True\<rparr>) (Some denied_response)),
             logged_in\<lparr>refreshToken := None, sent := [login_config, reports_first]\<rparr>)"
proof -
  let ?c = "api_get ''/reports'' no_config"
  let ?w = "logged_in\<lparr>isLoading := True\<rparr>"
  let ?err = "AxiosError ''Request failed with status code 500'' refresh_sent
                (Some failed_response)"
  let ?w' = "logged_in\<lparr>isLoading := True,
                       toasts := [ToastSuccess ''Successfully logged in!'',
                                   ToastError ''Server error. Please try again later''],
                       href := Some ''/login'',
                       sent := [login_config, reports_first, refresh_sent,
                                logout_sent 1003, logout_sent 1004],
                       pending := [Inr (Response 200 Map.empty (Some report_body)),
                                   Inr (Response 200 Map.empty (Some report_body))]\<rparr>"
  let ?v = "logged_in\<lparr>refreshToken := None\<rparr>"
  have fresh: "\<not> retry ?c" by (simp add: api_get_def no_config_def)
  have k: "Suc 0 = length (sent ?w)" "Suc 0 = length (sent ?v)" by (simp_all add: logged_in_def)
  have first: "server failing (Suc 0) = Reply denied_response" "status denied_response = 401"
    by (simp_all add: failing_def scripted_def denied_response_def)
  have c1: "reports_first = request_interceptor (clock failing (Suc 0)) (merge_defaults ?w ?c)"
    "reports_first = request_interceptor (clock failing (Suc 0)) (merge_defaults ?v ?c)"
    by (simp_all add: failing_def scenario_defs client_defs)
  have token: "refreshToken ?w = Some ''r1''" "''r1'' \<noteq> []" by (simp_all add: logged_in_def)
  have c2: "refresh_sent = request_interceptor (clock failing (Suc (Suc 0)))
                             (merge_defaults ?w (refresh_config ''r1''))"
    by (simp add: failing_def scenario_defs client_defs)
  have answer: "server failing (Suc (Suc 0)) = Reply failed_response"
    "server failing (Suc (Suc (Suc 0))) = ok report_body"
    "server failing (Suc (Suc (Suc (Suc 0)))) = ok report_body"
    by (simp_all add: failing_def scripted_def)
  have failure: "adapter refresh_sent (server failing (Suc (Suc 0))) = Inl ?err"
    "not_401 (server failing (Suc (Suc 0)))"
    unfolding answer by (simp_all add: adapter_def failed_response_def string_of_nat_500 not_401_def)
  have others: "not_401 (server failing (Suc (Suc (Suc 0))))"
    "not_401 (server failing (Suc (Suc (Suc (Suc 0)))))"
    unfolding answer by (simp_all add: not_401_def ok_def)
  have w': "?w' = (logout_start failing (logout_start failing
                     (notify (error_response ?err)
                        (?w\<lparr>sent := sent ?w @ [reports_first, refresh_sent]\<rparr>))))
                  \<lparr>href := Some ''/login''\<rparr>"
    unfolding logout_start_def send_def Let_def
    by (simp add: answer failing_def scenario_defs client_defs logout_sent_def)
  have empty: "pending ?w = []" by (simp add: logged_in_def init_world_def)
  have absent: "\<not> truthy (refreshToken ?v)" by (simp add: truthy_def)
  from refresh_failure_escalates [OF fresh k(1) first c1(1),
      where t = "''r1''" and ?c2.0 = refresh_sent and err = ?err and w' = ?w' and n = 0]
    token c2 failure w' empty others
  have a: "request (Suc (Suc (Suc (Suc (Suc 0))))) failing ?c ?w = Some (Rejected ?err, ?w')"
    and b: "run_pending (Suc (Suc (Suc 0))) failing ?w' \<noteq> None"
    by blast+
  from refresh_failure_escalates [OF fresh k(2) first c1(2), where n = 0] absent
  have "request (Suc (Suc 0)) failing ?c ?v =
          Some (Rejected (AxiosError (''Request failed with status code '' @ string_of_nat 401)
                            (reports_first\<lparr>retry := True\<rparr>) (Some denied_response)),
                ?v\<lparr>sent := sent ?v @ [reports_first]\<rparr>)"
    by blast
  then have c: "request (Suc (Suc 0)) failing ?c ?v =
          Some (Rejected (AxiosError ''Request failed with status code 401''
                            (reports_first\<lparr>retry := True\<rparr>) (Some denied_response)),
                logged_in\<lparr>refreshToken := None, sent := [login_config, reports_first]\<rparr>)"
    by (simp add: string_of_nat_401 logged_in_def)
  from a b c show ?thesis by blast
qed

text \<open>
  The claim as stated fails in the run of \<open>failing\<close>: the refresh request is answered
  500, and the error that reaches the caller is that of the refresh request, with
  status 500, not the original error, with which the adapter rejected the first
  attempt.
\<close>

theorem refresh_error_counterexample:
  "request (Suc (Suc (Suc (Suc (Suc 0))))) failing (api_get ''/reports'' no_config) logged_in
     = Some (Rejected (AxiosError ''Request failed with status code 500'' refresh_sent
                         (Some failed_response)),
             logged_in\<lparr>toasts := [ToastSuccess ''Successfully logged in!'',
                                   ToastError ''Server error. Please try again later''],
                       href := Some ''/login'',
                       sent := [login_config, reports_first, refresh_sent,
                                logout_sent 1003, logout_sent 1004],
                       pending := [Inr (Response 200 Map.empty (Some report_body)),
                                   Inr (Response 200 Map.empty (Some report_body))]\<rparr>)
   \<and> adapter reports_first (server failing (Suc 0))
       = Inl (AxiosError ''Request failed with status code 401'' reports_first
                (Some denied_response))
   \<and> AxiosError ''Request failed with status code 500'' refresh_sent (Some failed_response)
       \<noteq> AxiosError ''Request failed with status code 401'' reports_first
            (Some denied_response)"
  by (simp add: failing_def scenario_defs client_defs string_of_nat_500 string_of_nat_401
        logout_sent_def)


end
